theory Spec2Isabelle
  imports Main
begin

section \<open>The simulated RPC transport (package trpc)\<close>

text \<open>
  A shallow embedding of the test transport: the per-server service registry, the
  server and the client, and the virtual network with its fault injection (the richer
  of the two variants of the network file, the one with the \<open>enabled\<close> map and the
  \<open>reliable\<close>, \<open>longDelay\<close>, \<open>longReorder\<close> flags).

  Conventions of the model:
  \<^item> a Go \<open>error\<close> result is an \<open>error option\<close>, \<open>None\<close> being \<open>nil\<close>; a result pair
    \<open>(x, error)\<close> is a sum \<open>error + 'a\<close>;
  \<^item> every Go map is a partial function; \<open>len(m)\<close> is \<open>card (dom m)\<close>;
  \<^item> mutexes are not modelled: every function is one sequential step;
  \<^item> the values that travel through \<open>interface{}\<close> and \<open>reflect.Value\<close> are of an
    arbitrary type \<open>'v\<close>, and everything a registered method can touch (the receiver's
    fields, the reply buffer) is a state of an arbitrary type \<open>'w\<close>;
  \<^item> the ambient effects are a record: that state, the pseudo-random source and a log
    of the sleeps and of the method invocations, in order;
  \<^item> a server in the directory is held by value; the servers of the model are looked up
    by name wherever the code follows the pointer stored under that name.
\<close>

subsection \<open>Errors\<close>

text \<open>One constructor for each error the package builds; the arguments are the
  arguments of the format string, in its order.\<close>

datatype error =
    MethodNotFound string string    \<comment> \<open>"rpc: Can't find method %s of service %s"\<close>
  | NoExportedMethods string        \<comment> \<open>"rpc.Register: type %s has no exported methods"\<close>
  | ServiceAlreadyDefined string    \<comment> \<open>"rpc: service already defined: %s"\<close>
  | ServiceUndefined string         \<comment> \<open>"rpc: service %s undefined"\<close>
  | NoServerListens string string   \<comment> \<open>"rpc: no server listens on %s/%s"\<close>
  | ClientNotConnected              \<comment> \<open>"rpc: client doesn't connect to any server"\<close>
  | ClientNotExist                  \<comment> \<open>"rpc: client not exist"\<close>
  | ServerMissed                    \<comment> \<open>"rpc: server missed"\<close>
  | InvalidServiceMethod string     \<comment> \<open>"rpc: invalid service methods: %s"\<close>
  | RequestTimeout                  \<comment> \<open>"rpc: request timeout"\<close>

definition timeoutErr :: error where
  "timeoutErr = RequestTimeout"

text \<open>What a call into the package does: it returns its \<open>error\<close> result, or it panics.\<close>

datatype outcome = Return "error option" | Panic

subsection \<open>Ambient effects: receiver state, random source, log\<close>

datatype 'v event =
    Slept nat                 \<comment> \<open>\<open>time.Sleep\<close>, in milliseconds\<close>
  | Invoked string "'v list"  \<comment> \<open>a method called through reflection, with its arguments\<close>

record ('v, 'w) env =
  world :: 'w
  rng :: "nat \<Rightarrow> nat"
  trace :: "'v event list"

text \<open>\<open>rand.Int()\<close> returns a non-negative int: the next value of the source. The source
  is the sequence of the values it will return, \<open>rng e 0\<close> first.\<close>

definition randInt :: "('v, 'w) env \<Rightarrow> nat \<times> ('v, 'w) env" where
  "randInt e = (rng e 0, e\<lparr>rng := (\<lambda>i. rng e (Suc i))\<rparr>)"

text \<open>\<open>rand.Intn(n)\<close> returns a value below \<open>n\<close>; the model takes the next value of the
  source modulo \<open>n\<close>. It is used by \<open>responseDelay\<close> only.\<close>

definition randIntn :: "nat \<Rightarrow> ('v, 'w) env \<Rightarrow> nat \<times> ('v, 'w) env" where
  "randIntn n e = (rng e 0 mod n, e\<lparr>rng := (\<lambda>i. rng e (Suc i))\<rparr>)"

definition sleep :: "nat \<Rightarrow> ('v, 'w) env \<Rightarrow> ('v, 'w) env" where
  "sleep ms e = e\<lparr>trace := trace e @ [Slept ms]\<rparr>"

subsection \<open>Reflection: types and methods\<close>

datatype kind = KBool | KInt | KString | KStruct | KSlice | KMap | KInterface | KPtr

text \<open>The \<open>reflect.Type\<close> of a method: the kinds of its inputs (the receiver first) and
  the number of its outputs.\<close>

record funcType =
  ins :: "kind list"
  numOut :: nat

text \<open>\<open>reflect.Method\<close>. \<open>Func\<close> is the method as a function of its arguments (the
  receiver first) on the state; \<open>None\<close> is the zero \<open>reflect.Value\<close>.\<close>

record ('v, 'w) Method =
  Name :: string
  PkgPath :: string
  Type :: funcType
  Func :: "('v list \<Rightarrow> 'w \<Rightarrow> 'w) option"

text \<open>The zero value \<open>reflect.Method{}\<close>: what \<open>make([]reflect.Method, n)\<close> fills a
  slice with. Its \<open>Type\<close> is nil in Go and is never inspected; here it is the empty
  signature.\<close>

definition zeroMethod :: "('v, 'w) Method" where
  "zeroMethod = \<lparr>Name = [], PkgPath = [], Type = \<lparr>ins = [], numOut = 0\<rparr>, Func = None\<rparr>"

text \<open>\<open>reflect.Value.Call\<close>: panics on the zero Value, otherwise runs the function. That
  the arguments fit the function's parameter types is not modelled. The results of the
  call are not modelled either: its only caller drops them, and a method that passes
  \<open>validMethodType\<close> has none.\<close>

definition Call :: "('v, 'w) Method \<Rightarrow> 'v list \<Rightarrow> ('v, 'w) env \<Rightarrow> bool \<times> ('v, 'w) env" where
  "Call m vs e =
     (case Func m of
        None \<Rightarrow> (False, e)
      | Some f \<Rightarrow> (True, e\<lparr>world := f vs (world e), trace := trace e @ [Invoked (Name m) vs]\<rparr>))"

text \<open>\<open>reflect.Type\<close> of a receiver: its name and its method set.\<close>

record ('v, 'w) rtype =
  typeName :: string
  typeMethods :: "('v, 'w) Method list"

text \<open>A receiver handed to registration: \<open>reflect.TypeOf(rcvr)\<close>,
  \<open>reflect.ValueOf(rcvr)\<close> and \<open>reflect.Indirect(reflect.ValueOf(rcvr)).Type().Name()\<close>.\<close>

record ('v, 'w) rcvr =
  rcvrType :: "('v, 'w) rtype"
  rcvrValue :: 'v
  indirectName :: string

definition validMethodType :: "funcType \<Rightarrow> bool" where
  "validMethodType t =
     (if length (ins t) \<noteq> 3 \<or> numOut t \<noteq> 0 then False
      else list_all (\<lambda>i. ins t ! i = KPtr) [1..<length (ins t)])"

subsection \<open>service\<close>

record ('v, 'w) service =
  service_name :: string
  service_typ :: "('v, 'w) rtype"
  receiver :: 'v
  methods :: "string \<rightharpoonup> ('v, 'w) Method"

definition getMethod :: "('v, 'w) service \<Rightarrow> string \<Rightarrow> error + ('v, 'w) Method" where
  "getMethod s name =
     (case methods s name of
        None \<Rightarrow> Inl (MethodNotFound name (service_name s))
      | Some m \<Rightarrow> Inr m)"

definition service_dispatch ::
  "('v, 'w) service \<Rightarrow> string \<Rightarrow> 'v \<Rightarrow> 'v \<Rightarrow> ('v, 'w) env \<Rightarrow> outcome \<times> ('v, 'w) env" where
  "service_dispatch s method args reply e =
     (case getMethod s method of
        Inl err \<Rightarrow> (Return (Some err), e)
      | Inr m \<Rightarrow>
          (case Call m [receiver s, args, reply] e of
             (False, e') \<Rightarrow> (Panic, e')
           | (True, e') \<Rightarrow> (Return None, e')))"

definition addMethods :: "('v, 'w) service \<Rightarrow> ('v, 'w) Method list \<Rightarrow> ('v, 'w) service" where
  "addMethods s ms = s\<lparr>methods := fold (\<lambda>m tbl. tbl(Name m \<mapsto> m)) ms (methods s)\<rparr>"

subsection \<open>Server\<close>

text \<open>The \<open>registrar\<close> field is the network's \<open>registerServer\<close>; the model passes the
  network to \<open>Accept\<close> instead.\<close>

record ('v, 'w) server =
  server_name :: string
  services :: "string \<rightharpoonup> ('v, 'w) service"

definition newServer :: "string \<Rightarrow> ('v, 'w) server" where
  "newServer name = \<lparr>server_name = name, services = Map.empty\<rparr>"

definition addService ::
  "('v, 'w) server \<Rightarrow> string \<Rightarrow> ('v, 'w) service \<Rightarrow> error option \<times> ('v, 'w) server" where
  "addService server name s =
     (case services server name of
        Some _ \<Rightarrow> (Some (ServiceAlreadyDefined name), server)
      | None \<Rightarrow> (None, server\<lparr>services := (services server)(name \<mapsto> s)\<rparr>))"

text \<open>The loop of \<open>RegisterName\<close> over the method set: slot \<open>i\<close> of the slice is
  overwritten when method \<open>i\<close> passes both tests, and keeps the zero value otherwise.\<close>

definition selectMethods :: "('v, 'w) rtype \<Rightarrow> ('v, 'w) Method list" where
  "selectMethods t =
     fold (\<lambda>i ms. let method = typeMethods t ! i in
                  if PkgPath method = [] \<and> validMethodType (Type method)
                  then ms[i := method] else ms)
          [0..<length (typeMethods t)]
          (replicate (length (typeMethods t)) zeroMethod)"

definition RegisterName ::
  "('v, 'w) server \<Rightarrow> string \<Rightarrow> ('v, 'w) rcvr \<Rightarrow> error option \<times> ('v, 'w) server" where
  "RegisterName server name0 rcvr =
     (let s = \<lparr>service_name = [], service_typ = rcvrType rcvr, receiver = rcvrValue rcvr,
               methods = Map.empty\<rparr>;
          name = (if length name0 = 0 then indirectName rcvr else name0);
          ms = selectMethods (service_typ s)
      in if length ms = 0 then (Some (NoExportedMethods (typeName (service_typ s))), server)
         else addService server name (addMethods s ms))"

definition Register :: "('v, 'w) server \<Rightarrow> ('v, 'w) rcvr \<Rightarrow> error option \<times> ('v, 'w) server" where
  "Register server rcvr = RegisterName server [] rcvr"

definition getService :: "('v, 'w) server \<Rightarrow> string \<Rightarrow> error + ('v, 'w) service" where
  "getService server name =
     (case services server name of
        None \<Rightarrow> Inl (ServiceUndefined name)
      | Some s \<Rightarrow> Inr s)"

definition Server_dispatch ::
  "('v, 'w) server \<Rightarrow> string \<Rightarrow> string \<Rightarrow> 'v \<Rightarrow> 'v \<Rightarrow> ('v, 'w) env \<Rightarrow> outcome \<times> ('v, 'w) env" where
  "Server_dispatch server service method args reply e =
     (case getService server service of
        Inl err \<Rightarrow> (Return None, e)
      | Inr srv \<Rightarrow> service_dispatch srv method args reply e)"

subsection \<open>Client\<close>

text \<open>The two handlers of a client are the network's \<open>call\<close> and \<open>closeClient\<close>; the
  model passes the network to \<open>Client_Call\<close> and \<open>Client_Close\<close> instead.\<close>

record client =
  client_name :: string

definition newClient :: "string \<Rightarrow> client" where
  "newClient name = \<lparr>client_name = name\<rparr>"

subsection \<open>Names, keys and parsing\<close>

text \<open>The verb \<open>%d\<close> of a non-negative int: its decimal digits.\<close>

definition digit :: "nat \<Rightarrow> char" where
  "digit d = ''0123456789'' ! d"

fun decimal :: "nat \<Rightarrow> string" where
  "decimal n = (if n < 10 then [digit n] else decimal (n div 10) @ [digit (n mod 10)])"

declare decimal.simps [simp del]

definition generateName :: "string \<Rightarrow> nat \<Rightarrow> string" where
  "generateName prefix index = prefix @ ''-'' @ decimal index"

definition joinAddress :: "string \<Rightarrow> string \<Rightarrow> string" where
  "joinAddress network address = network @ ''-'' @ address"

text \<open>\<open>strings.Split(s, sep)\<close> for a separator of one byte: the pieces of \<open>s\<close> between
  the occurrences of \<open>sep\<close>, so one piece more than there are occurrences. The last
  case of the inner \<open>case\<close> is never reached: the result is never empty.\<close>

fun Split :: "string \<Rightarrow> char \<Rightarrow> string list" where
  "Split [] sep = [[]]"
| "Split (c # cs) sep =
     (if c = sep then [] # Split cs sep
      else (case Split cs sep of
              w # ws \<Rightarrow> (c # w) # ws
            | [] \<Rightarrow> [[c]]))"

definition parseServiceMethod :: "string \<Rightarrow> error + (string \<times> string)" where
  "parseServiceMethod serviceMethod =
     (let tags = Split serviceMethod (CHR ''.'')
      in if length tags \<noteq> 2 then Inl (InvalidServiceMethod serviceMethod)
         else Inr (tags ! 0, tags ! 1))"

subsection \<open>Network\<close>

definition longTimeout :: nat where "longTimeout = 7000"
definition shortTimeout :: nat where "shortTimeout = 100"
definition shortDelay :: nat where "shortDelay = 27"

record ('v, 'w) network =
  servers :: "string \<rightharpoonup> ('v, 'w) server"
  clients :: "string \<rightharpoonup> client"
  addressMap :: "string \<rightharpoonup> string"
  connections :: "string \<rightharpoonup> string"
  reliable :: bool
  longDelay :: bool
  longReorder :: bool
  enabled :: "string \<rightharpoonup> bool"

definition NewNetwork :: "('v, 'w) network" where
  "NewNetwork = \<lparr>servers = Map.empty, clients = Map.empty, addressMap = Map.empty,
                 connections = Map.empty, reliable = True, longDelay = False,
                 longReorder = False, enabled = Map.empty\<rparr>"

definition SetReliable :: "('v, 'w) network \<Rightarrow> bool \<Rightarrow> ('v, 'w) network" where
  "SetReliable n r = n\<lparr>reliable := r\<rparr>"

definition setClientEnable :: "('v, 'w) network \<Rightarrow> string \<Rightarrow> bool \<Rightarrow> ('v, 'w) network" where
  "setClientEnable n name en =
     (case clients n name of
        None \<Rightarrow> n
      | Some _ \<Rightarrow> n\<lparr>enabled := (enabled n)(name \<mapsto> en)\<rparr>)"

definition EnableClient :: "('v, 'w) network \<Rightarrow> string \<Rightarrow> ('v, 'w) network" where
  "EnableClient n name = setClientEnable n name True"

definition DisableClient :: "('v, 'w) network \<Rightarrow> string \<Rightarrow> ('v, 'w) network" where
  "DisableClient n name = setClientEnable n name False"

definition NewServer :: "('v, 'w) network \<Rightarrow> ('v, 'w) server \<times> ('v, 'w) network" where
  "NewServer n =
     (let name = generateName ''server'' (card (dom (servers n)));
          server = newServer name
      in (server, n\<lparr>servers := (servers n)(name \<mapsto> server)\<rparr>))"

definition RemoveServer :: "('v, 'w) network \<Rightarrow> ('v, 'w) server \<Rightarrow> ('v, 'w) network" where
  "RemoveServer n server = n\<lparr>servers := (servers n)(server_name server := None)\<rparr>"

definition registerServer ::
  "('v, 'w) network \<Rightarrow> string \<Rightarrow> string \<Rightarrow> string \<Rightarrow> ('v, 'w) network" where
  "registerServer n name network address =
     (let key = joinAddress network address
      in case addressMap n key of
           Some _ \<Rightarrow> n
         | None \<Rightarrow> n\<lparr>addressMap := (addressMap n)(key \<mapsto> name)\<rparr>)"

text \<open>\<open>Server.Accept\<close>: the listener's address is its network and its string.\<close>

definition Accept ::
  "('v, 'w) server \<Rightarrow> ('v, 'w) network \<Rightarrow> string \<Rightarrow> string \<Rightarrow> ('v, 'w) network" where
  "Accept server n network address = registerServer n (server_name server) network address"

definition getServerByAddress ::
  "('v, 'w) network \<Rightarrow> string \<Rightarrow> string \<Rightarrow> error + ('v, 'w) server" where
  "getServerByAddress n network address =
     (case addressMap n (joinAddress network address) of
        Some name \<Rightarrow>
          (case servers n name of
             Some server \<Rightarrow> Inr server
           | None \<Rightarrow> Inl (NoServerListens network address))
      | None \<Rightarrow> Inl (NoServerListens network address))"

definition createClient ::
  "('v, 'w) network \<Rightarrow> ('v, 'w) server \<Rightarrow> client \<times> ('v, 'w) network" where
  "createClient n server =
     (let name = generateName ''client'' (card (dom (clients n)));
          client = newClient name
      in (client, n\<lparr>clients := (clients n)(name \<mapsto> client),
                     enabled := (enabled n)(name \<mapsto> True),
                     connections := (connections n)(name \<mapsto> server_name server)\<rparr>))"

definition Dail ::
  "('v, 'w) network \<Rightarrow> string \<Rightarrow> string \<Rightarrow> (error + client) \<times> ('v, 'w) network" where
  "Dail n network address =
     (case getServerByAddress n network address of
        Inl err \<Rightarrow> (Inl err, n)
      | Inr server \<Rightarrow> (let (c, n') = createClient n server in (Inr c, n')))"

definition closeClient :: "('v, 'w) network \<Rightarrow> string \<Rightarrow> error option \<times> ('v, 'w) network" where
  "closeClient n name =
     (case clients n name of
        Some _ \<Rightarrow> (Some ClientNotExist, n)
      | None \<Rightarrow> (None, n\<lparr>enabled := (enabled n)(name := None),
                         clients := (clients n)(name := None)\<rparr>))"

definition Client_Close :: "client \<Rightarrow> ('v, 'w) network \<Rightarrow> error option \<times> ('v, 'w) network" where
  "Client_Close c n = closeClient n (client_name c)"

text \<open>Reading a missing key of \<open>enabled\<close> gives \<open>false\<close>.\<close>

definition networkCondition :: "('v, 'w) network \<Rightarrow> string \<Rightarrow> bool \<times> bool \<times> bool \<times> bool" where
  "networkCondition n clientName =
     ((case enabled n clientName of None \<Rightarrow> False | Some b \<Rightarrow> b),
      reliable n, longDelay n, longReorder n)"

definition getServer :: "('v, 'w) network \<Rightarrow> string \<Rightarrow> error + ('v, 'w) server" where
  "getServer n name =
     (case servers n name of
        None \<Rightarrow> Inl ServerMissed
      | Some server \<Rightarrow> Inr server)"

definition msgLost :: "('v, 'w) env \<Rightarrow> bool \<times> ('v, 'w) env" where
  "msgLost e = (let (r, e') = randInt e in (r mod 1000 < 100, e'))"

definition responseDelay :: "('v, 'w) env \<Rightarrow> nat \<times> ('v, 'w) env" where
  "responseDelay e =
     (let (a, e1) = randIntn 2000 e;
          (b, e2) = randIntn (1 + a) e1
      in (200 + b, e2))"

text \<open>The second half of \<open>Network.dispatch\<close>, from the call of the server on: the
  response leg.\<close>

definition deliver ::
  "('v, 'w) server \<Rightarrow> bool \<Rightarrow> bool \<Rightarrow> string \<Rightarrow> string \<Rightarrow> 'v \<Rightarrow> 'v \<Rightarrow> ('v, 'w) env
     \<Rightarrow> outcome \<times> ('v, 'w) env" where
  "deliver server rel longRecorder service method args reply e =
     (case Server_dispatch server service method args reply e of
        (Panic, e1) \<Rightarrow> (Panic, e1)
      | (Return err, e1) \<Rightarrow>
          (let (lost, e2) = (if \<not> rel then msgLost e1 else (False, e1))
           in if lost then (Return (Some timeoutErr), e2)
              else (let e3 = (if longRecorder
                              then (let (d, e') = responseDelay e2 in sleep d e')
                              else e2)
                    in (Return err, e3))))"

definition Network_dispatch ::
  "('v, 'w) network \<Rightarrow> string \<Rightarrow> string \<Rightarrow> string \<Rightarrow> string \<Rightarrow> 'v \<Rightarrow> 'v \<Rightarrow> ('v, 'w) env
     \<Rightarrow> outcome \<times> ('v, 'w) env" where
  "Network_dispatch n serverName clientName service method args reply e =
     (let got = getServer n serverName;
          (en, rel, longDel, longRecorder) = networkCondition n clientName
      in if \<not> en \<or> isl got then
           (let (r, e1) = randInt e;
                timeout = (if longDel then r mod longTimeout else r mod shortTimeout)
            in (Return (Some timeoutErr), sleep timeout e1))
         else if \<not> rel then
           (let (lost, e1) = msgLost e
            in if lost then (Return (Some timeoutErr), e1)
               else (let (r, e2) = randInt e1
                     in deliver (projr got) rel longRecorder service method args reply
                          (sleep (r mod shortDelay) e2)))
         else deliver (projr got) rel longRecorder service method args reply e)"

definition Network_call ::
  "('v, 'w) network \<Rightarrow> string \<Rightarrow> string \<Rightarrow> 'v \<Rightarrow> 'v \<Rightarrow> ('v, 'w) env \<Rightarrow> outcome \<times> ('v, 'w) env" where
  "Network_call n clientName serviceMethod args reply e =
     (case parseServiceMethod serviceMethod of
        Inl err \<Rightarrow> (Return (Some err), e)
      | Inr (service, method) \<Rightarrow>
          (case connections n clientName of
             None \<Rightarrow> (Return (Some ClientNotConnected), e)
           | Some serverName \<Rightarrow>
               Network_dispatch n serverName clientName service method args reply e))"

definition Client_Call ::
  "client \<Rightarrow> ('v, 'w) network \<Rightarrow> string \<Rightarrow> 'v \<Rightarrow> 'v \<Rightarrow> ('v, 'w) env \<Rightarrow> outcome \<times> ('v, 'w) env" where
  "Client_Call c n serviceMethod args reply e =
     Network_call n (client_name c) serviceMethod args reply e"

subsection \<open>Test scenarios\<close>

text \<open>A receiver type \<open>Arith\<close> with two exported methods: \<open>Add(args, reply)\<close>, which
  returns nothing and adds its argument to the state, and \<open>Div(args, reply) error\<close>,
  which has a result and so does not pass \<open>validMethodType\<close>. A second receiver type
  has the method \<open>Div\<close> only.\<close>

definition ArithAdd :: "(nat, nat) Method" where
  "ArithAdd = \<lparr>Name = ''Add'', PkgPath = [],
               Type = \<lparr>ins = [KStruct, KPtr, KPtr], numOut = 0\<rparr>,
               Func = Some (\<lambda>vs w. case vs of [r, a, p] \<Rightarrow> w + a | _ \<Rightarrow> w)\<rparr>"

definition ArithDiv :: "(nat, nat) Method" where
  "ArithDiv = \<lparr>Name = ''Div'', PkgPath = [],
               Type = \<lparr>ins = [KStruct, KPtr, KPtr], numOut = 1\<rparr>,
               Func = Some (\<lambda>vs w. case vs of [r, a, p] \<Rightarrow> w div a | _ \<Rightarrow> w)\<rparr>"

definition arithRcvr :: "(nat, nat) rcvr" where
  "arithRcvr = \<lparr>rcvrType = \<lparr>typeName = ''Arith'', typeMethods = [ArithAdd, ArithDiv]\<rparr>,
                rcvrValue = 7, indirectName = ''Arith''\<rparr>"

definition onlyDivRcvr :: "(nat, nat) rcvr" where
  "onlyDivRcvr = \<lparr>rcvrType = \<lparr>typeName = ''OnlyDiv'', typeMethods = [ArithDiv]\<rparr>,
                  rcvrValue = 7, indirectName = ''OnlyDiv''\<rparr>"

text \<open>A network, one server listening on \<open>("test", "addr1")\<close>, one client dialled to
  it.\<close>

definition net1 :: "(nat, nat) network" where
  "net1 = (let (server, n0) = NewServer NewNetwork;
               n1 = Accept server n0 ''test'' ''addr1''
           in snd (Dail n1 ''test'' ''addr1''))"

text \<open>The same, after \<open>RegisterName("Arith", rcvr)\<close> on the server: the directory holds
  a pointer to the server, so it sees the service.\<close>

definition server1 :: "(nat, nat) server" where
  "server1 = snd (RegisterName (newServer ''server-0'') ''Arith'' arithRcvr)"

definition net2 :: "(nat, nat) network" where
  "net2 = net1\<lparr>servers := (servers net1)(''server-0'' \<mapsto> server1)\<rparr>"

definition env0 :: "(nat, nat) env" where
  "env0 = \<lparr>world = 0, rng = (\<lambda>i. 0), trace = []\<rparr>"

text \<open>A random source whose third value is 50 and whose other values are 12345.\<close>

definition env1 :: "(nat, nat) env" where
  "env1 = \<lparr>world = 0, rng = (\<lambda>i. if i = 2 then 50 else 12345), trace = []\<rparr>"

section \<open>Properties\<close>

subsection \<open>Evaluation lemmas\<close>

lemma decimal_0: "decimal 0 = ''0''"
  by (subst decimal.simps) (simp add: digit_def)

lemma decimal_1: "decimal (Suc 0) = ''1''"
  by (subst decimal.simps) (simp add: digit_def)

lemma net1_eq:
  "net1 = \<lparr>servers = [''server-0'' \<mapsto> newServer ''server-0''],
           clients = [''client-0'' \<mapsto> newClient ''client-0''],
           addressMap = [''test-addr1'' \<mapsto> ''server-0''],
           connections = [''client-0'' \<mapsto> ''server-0''],
           reliable = True, longDelay = False, longReorder = False,
           enabled = [''client-0'' \<mapsto> True]\<rparr>"
  by (simp add: net1_def NewServer_def Accept_def registerServer_def joinAddress_def
      Dail_def getServerByAddress_def createClient_def NewNetwork_def generateName_def decimal_0
      newServer_def Let_def)

lemma valid_ArithAdd: "validMethodType (Type ArithAdd)"
  by (simp add: validMethodType_def ArithAdd_def upt_rec)

lemma invalid_ArithDiv: "\<not> validMethodType (Type ArithDiv)"
  by (simp add: validMethodType_def ArithDiv_def)

lemma PkgPath_ArithAdd: "PkgPath ArithAdd = []"
  by (simp add: ArithAdd_def)

lemma PkgPath_ArithDiv: "PkgPath ArithDiv = []"
  by (simp add: ArithDiv_def)

lemma selectMethods_onlyDivRcvr: "selectMethods (rcvrType onlyDivRcvr) = [zeroMethod]"
  by (simp add: selectMethods_def onlyDivRcvr_def invalid_ArithDiv PkgPath_ArithDiv)

lemma selectMethods_arithRcvr: "selectMethods (rcvrType arithRcvr) = [ArithAdd, zeroMethod]"
  by (simp add: selectMethods_def arithRcvr_def invalid_ArithDiv valid_ArithAdd upt_rec
      PkgPath_ArithAdd PkgPath_ArithDiv)

lemma server1_eq:
  "server1 = \<lparr>server_name = ''server-0'',
               services = [''Arith'' \<mapsto>
                 \<lparr>service_name = [], service_typ = rcvrType arithRcvr, receiver = 7,
                  methods = [''Add'' \<mapsto> ArithAdd, [] \<mapsto> zeroMethod]\<rparr>]\<rparr>"
  by (simp add: server1_def RegisterName_def selectMethods_arithRcvr addService_def
      newServer_def addMethods_def)
     (simp add: ArithAdd_def zeroMethod_def arithRcvr_def)

lemma Server_dispatch_server1_Add:
  "Server_dispatch server1 ''Arith'' ''Add'' a r e
     = (Return None, e\<lparr>world := world e + a, trace := trace e @ [Invoked ''Add'' [7, a, r]]\<rparr>)"
  by (simp add: server1_eq Server_dispatch_def getService_def service_dispatch_def
      getMethod_def Call_def)
     (simp add: ArithAdd_def)

lemma net2_eq:
  "net2 = \<lparr>servers = [''server-0'' \<mapsto> server1],
           clients = [''client-0'' \<mapsto> newClient ''client-0''],
           addressMap = [''test-addr1'' \<mapsto> ''server-0''],
           connections = [''client-0'' \<mapsto> ''server-0''],
           reliable = True, longDelay = False, longReorder = False,
           enabled = [''client-0'' \<mapsto> True]\<rparr>"
  by (simp add: net2_def net1_eq)

subsection \<open>Server.dispatch on an unknown service\<close>

text \<open>
  C1. The claim: for a service name absent from the server's service map,
  \<open>Server.dispatch\<close> fails with the "service undefined" error and invokes nothing.
  The code builds that error in \<open>getService\<close> and then returns \<open>nil\<close> in its place:
  for every server and every absent service name the result of \<open>Server.dispatch\<close> is
  \<open>nil\<close>, with no effect at all (no invocation, no sleep, no random draw).
\<close>

theorem C1_unknown_service_returns_nil:
  "services server service = None \<Longrightarrow>
     getService server service = Inl (ServiceUndefined service) \<and>
     Server_dispatch server service method args reply e = (Return None, e)"
  by (simp add: Server_dispatch_def getService_def)

theorem C1_unknown_service_returns_nil_witness:
  "services (newServer ''server-0'' :: (nat, nat) server) ''Arith'' = None \<and>
   getService (newServer ''server-0'' :: (nat, nat) server) ''Arith''
     = Inl (ServiceUndefined ''Arith'') \<and>
   Server_dispatch (newServer ''server-0'' :: (nat, nat) server) ''Arith'' ''Add'' 2 3 env0
     = (Return None, env0)"
  using C1_unknown_service_returns_nil
    [of "newServer ''server-0'' :: (nat, nat) server" "''Arith''" "''Add''" 2 3 env0]
  by (simp add: newServer_def)

subsection \<open>Closing a client\<close>

text \<open>
  C4. The claim: closing a client removes it and its \<open>enabled\<close> entry and returns no
  error, and a second close reports "client not found". The test of \<open>closeClient\<close> is
  the other way round: on a client that is in the directory it returns the error
  \<open>rpc: client not exist\<close> and changes nothing, on a name that is not in the directory
  it deletes (nothing) and returns \<open>nil\<close>.
\<close>

theorem C4_closeClient_inverted:
  "(clients n name \<noteq> None \<longrightarrow> closeClient n name = (Some ClientNotExist, n)) \<and>
   (clients n name = None \<longrightarrow>
      closeClient n name
        = (None, n\<lparr>enabled := (enabled n)(name := None), clients := (clients n)(name := None)\<rparr>))"
  by (auto simp add: closeClient_def)

theorem C4_closeClient_inverted_witness:
  "clients net1 ''client-0'' \<noteq> None \<and>
   Client_Close (newClient ''client-0'') net1 = (Some ClientNotExist, net1) \<and>
   clients net1 ''client-1'' = None \<and>
   fst (closeClient net1 ''client-1'') = None"
  using C4_closeClient_inverted [of net1 "''client-0''"]
        C4_closeClient_inverted [of net1 "''client-1''"]
  by (simp add: net1_eq Client_Close_def newClient_def)

subsection \<open>The method table of a service\<close>

lemma fold_update_length:
  "length (fold (\<lambda>i ms. if P i then ms[i := f i] else ms) js ms0) = length ms0"
  by (induction js arbitrary: ms0) auto

lemma selectMethods_length: "length (selectMethods t) = length (typeMethods t)"
  unfolding selectMethods_def Let_def by (simp add: fold_update_length)

lemma selectMethods_Nil: "(selectMethods t = []) = (typeMethods t = [])"
  using selectMethods_length [of t] by (metis length_0_conv)

text \<open>What \<open>service.dispatch\<close> does on any service: a name with a callable entry is
  called with the receiver, \<open>args\<close> and \<open>reply\<close>, and the result is \<open>nil\<close>; a name with
  no entry gives the error built from the name and the \<open>name\<close> field of the service.
  That field is empty in every service \<open>RegisterName\<close> stores.\<close>

lemma service_dispatch_present:
  "methods s name = Some m \<Longrightarrow> Func m = Some f \<Longrightarrow>
     service_dispatch s name args reply e
       = (Return None,
          e\<lparr>world := f [receiver s, args, reply] (world e),
            trace := trace e @ [Invoked (Name m) [receiver s, args, reply]]\<rparr>)"
  by (simp add: service_dispatch_def getMethod_def Call_def)

lemma service_dispatch_absent:
  "methods s name = None \<Longrightarrow>
     service_dispatch s name args reply e
       = (Return (Some (MethodNotFound name (service_name s))), e)"
  by (simp add: service_dispatch_def getMethod_def)

lemma RegisterName_service_name:
  "RegisterName server name rcvr = (None, server') \<Longrightarrow>
     \<exists>s. services server' (if length name = 0 then indirectName rcvr else name) = Some s \<and>
         service_name s = []"
  by (auto simp add: RegisterName_def Let_def addService_def addMethods_def
      split: if_splits option.splits)

text \<open>
  C5. The claim: \<open>service.dispatch\<close> invokes a method that is in the table with
  \<open>args\<close> and \<open>reply\<close> and synthesizes no error, and for a name that is not in the table
  fails with an error naming the method and the service. On the service that
  \<open>RegisterName("Arith", rcvr)\<close> builds: \<open>Add\<close> is invoked with the receiver, \<open>args\<close> and
  \<open>reply\<close> and the result is \<open>nil\<close>; the error for the unknown \<open>Mul\<close> names the method
  and, for the service, the empty string, since no code ever sets the \<open>name\<close> field of
  a service; and the name \<open>""\<close>, which is in the table with the zero Method (see C6),
  makes the call through reflection panic.
\<close>

theorem C5_dispatch_on_registered_service:
  "(case RegisterName (newServer ''server-0'') ''Arith'' arithRcvr of
      (err, server) \<Rightarrow>
        err = None \<and>
        (case services server ''Arith'' of
           None \<Rightarrow> False
         | Some s \<Rightarrow>
             service_dispatch s ''Add'' 2 3 env0
               = (Return None,
                  \<lparr>world = 2, rng = (\<lambda>i. 0), trace = [Invoked ''Add'' [7, 2, 3]]\<rparr>) \<and>
             service_dispatch s ''Mul'' 2 3 env0
               = (Return (Some (MethodNotFound ''Mul'' [])), env0) \<and>
             methods s [] = Some zeroMethod \<and>
             service_dispatch s [] 2 3 env0 = (Panic, env0)))"
  by (simp add: RegisterName_def selectMethods_arithRcvr addService_def newServer_def
      addMethods_def service_dispatch_def getMethod_def Call_def)
     (simp add: ArithAdd_def zeroMethod_def arithRcvr_def env0_def)

text \<open>
  C6. The claim: registration of a receiver with no conforming method fails with an
  error naming the receiver's type, and a non-conforming method does not enter the table
  of methods. The slice that collects the methods is made with one slot for each of the
  type's methods, so its length is zero only for a type with no method at all:
  that is the only case in which \<open>RegisterName\<close> returns the error. For the receiver
  whose single method \<open>Div\<close> returns an \<open>error\<close>, registration succeeds, and the slot
  of \<open>Div\<close>, left at the zero Method, enters the method table under the name \<open>""\<close>.
\<close>

theorem C6_registration_without_conforming_method:
  "((fst (RegisterName server name rcvr)
       = Some (NoExportedMethods (typeName (rcvrType rcvr))))
      = (typeMethods (rcvrType rcvr) = [])) \<and>
   RegisterName (newServer ''server-0'') ''OnlyDiv'' onlyDivRcvr
     = (None,
        \<lparr>server_name = ''server-0'',
         services = [''OnlyDiv'' \<mapsto>
           \<lparr>service_name = [], service_typ = rcvrType onlyDivRcvr, receiver = 7,
            methods = [[] \<mapsto> zeroMethod]\<rparr>]\<rparr>)"
proof (intro conjI)
  show "(fst (RegisterName server name rcvr)
           = Some (NoExportedMethods (typeName (rcvrType rcvr))))
          = (typeMethods (rcvrType rcvr) = [])"
    by (auto simp add: RegisterName_def Let_def selectMethods_Nil addService_def
        split: option.splits)
next
  have "RegisterName (newServer ''server-0'') ''OnlyDiv'' onlyDivRcvr
          = (None,
             \<lparr>server_name = ''server-0'',
              services = [''OnlyDiv'' \<mapsto>
                \<lparr>service_name = [], service_typ = rcvrType onlyDivRcvr,
                 receiver = rcvrValue onlyDivRcvr,
                 methods = [[] \<mapsto> zeroMethod]\<rparr>]\<rparr>)"
    by (simp add: RegisterName_def selectMethods_onlyDivRcvr addService_def newServer_def
        addMethods_def zeroMethod_def)
  then show "RegisterName (newServer ''server-0'') ''OnlyDiv'' onlyDivRcvr
          = (None,
             \<lparr>server_name = ''server-0'',
              services = [''OnlyDiv'' \<mapsto>
                \<lparr>service_name = [], service_typ = rcvrType onlyDivRcvr, receiver = 7,
                 methods = [[] \<mapsto> zeroMethod]\<rparr>]\<rparr>)"
    by (simp add: onlyDivRcvr_def)
qed

subsection \<open>Server names\<close>

text \<open>
  C8. The claim: the name \<open>NewServer\<close> generates is distinct from the name of every
  server in the directory, whatever \<open>NewServer\<close> and \<open>RemoveServer\<close> calls came before.
  The sequence number is the size of the directory, which a removal lowers: after
  \<open>NewServer\<close>, \<open>NewServer\<close>, \<open>RemoveServer\<close> of the first server, the next \<open>NewServer\<close>
  generates \<open>server-1\<close> again, the name of the second server, which is still in the
  directory, and takes its entry.
\<close>

theorem C8_name_reused_after_removal:
  "(let (s0, n1) = NewServer (NewNetwork :: ('v, 'w) network);
        (s1, n2) = NewServer n1;
        n3 = RemoveServer n2 s0;
        (s2, n4) = NewServer n3
    in server_name s0 = ''server-0'' \<and> server_name s1 = ''server-1'' \<and>
       servers n3 ''server-1'' = Some s1 \<and>
       server_name s2 = ''server-1'' \<and> dom (servers n4) = {''server-1''})"
  by (auto simp add: NewServer_def NewNetwork_def generateName_def decimal_0 decimal_1
      RemoveServer_def newServer_def Let_def)

subsection \<open>The address map\<close>

lemma registerServer_keeps:
  "addressMap n k = Some name \<Longrightarrow>
     addressMap (registerServer n name' network address) k = Some name"
  by (auto simp add: registerServer_def Let_def split: option.splits)

lemma registerServer_fold_keeps:
  "addressMap n k = Some name \<Longrightarrow>
     addressMap (fold (\<lambda>(nm, nw, ad) n'. registerServer n' nm nw ad) regs n) k = Some name"
  by (induction regs arbitrary: n) (auto simp add: registerServer_keeps)

text \<open>
  C7. For every key \<open>(network, address)\<close> the first \<open>registerServer\<close> wins: on a free
  key it binds the key to the server name; on a bound key, with any server name, it
  leaves the whole network as it is (and it has no error result to report with); and
  after any further sequence of registrations, of this key or of others, the key is
  still bound to the first name.
\<close>

theorem C7_first_registration_wins:
  "(addressMap n (joinAddress network address) = None \<longrightarrow>
      addressMap (registerServer n name network address) (joinAddress network address)
        = Some name) \<and>
   (addressMap n (joinAddress network address) \<noteq> None \<longrightarrow>
      registerServer n name' network address = n) \<and>
   (addressMap n (joinAddress network address) = Some name \<longrightarrow>
      addressMap (fold (\<lambda>(nm, nw, ad) n'. registerServer n' nm nw ad) regs n)
        (joinAddress network address) = Some name)"
proof (intro conjI impI)
  assume "addressMap n (joinAddress network address) = None"
  then show "addressMap (registerServer n name network address) (joinAddress network address)
               = Some name"
    by (simp add: registerServer_def Let_def)
next
  assume "addressMap n (joinAddress network address) \<noteq> None"
  then show "registerServer n name' network address = n"
    by (auto simp add: registerServer_def Let_def)
next
  assume "addressMap n (joinAddress network address) = Some name"
  then show "addressMap (fold (\<lambda>(nm, nw, ad) n'. registerServer n' nm nw ad) regs n)
               (joinAddress network address) = Some name"
    by (rule registerServer_fold_keeps)
qed

theorem C7_first_registration_wins_witness:
  "addressMap (NewNetwork :: (nat, nat) network) (joinAddress ''test'' ''addr1'') = None \<and>
   addressMap (registerServer (NewNetwork :: (nat, nat) network) ''server-0'' ''test'' ''addr1'')
     (joinAddress ''test'' ''addr1'') = Some ''server-0'' \<and>
   addressMap net1 (joinAddress ''test'' ''addr1'') = Some ''server-0'' \<and>
   registerServer net1 ''server-1'' ''test'' ''addr1'' = net1 \<and>
   addressMap
     (fold (\<lambda>(nm, nw, ad) n'. registerServer n' nm nw ad)
        [(''server-1'', ''test'', ''addr1''), (''server-2'', ''test'', ''addr2'')] net1)
     (joinAddress ''test'' ''addr1'') = Some ''server-0''"
  using C7_first_registration_wins
          [of "NewNetwork :: (nat, nat) network" "''test''" "''addr1''" "''server-0''"]
        C7_first_registration_wins
          [of net1 "''test''" "''addr1''" "''server-0''" "''server-1''"
              "[(''server-1'', ''test'', ''addr1''), (''server-2'', ''test'', ''addr2'')]"]
  by (simp add: net1_eq NewNetwork_def joinAddress_def registerServer_def Let_def)

lemma joinAddress_shift:
  "joinAddress (nw @ ''-'' @ a) b = joinAddress nw (a @ ''-'' @ b)"
  by (simp add: joinAddress_def)

text \<open>
  C10. The key of an address is \<open>network\<close>, a dash, \<open>address\<close>, so \<open>("a", "b-c")\<close> and
  \<open>("a-b", "c")\<close> have the same key. On a network where that key is free and \<open>name\<close>
  is a server of the directory, after binding \<open>("a", "b-c")\<close> to \<open>name\<close>: both pairs
  resolve to that server; \<open>Dail\<close> on the pair \<open>("a-b", "c")\<close>, never registered, succeeds,
  does what \<open>Dail\<close> on the registered pair does, and connects the new client to that
  server; and a registration of \<open>("a-b", "c")\<close> for any server is a no-op. The
  other way round, when \<open>("a-b", "c")\<close> is bound first, a later binding of
  \<open>("a", "b-c")\<close> has no effect.
\<close>

theorem C10_key_collision:
  "joinAddress ''a'' ''b-c'' = joinAddress ''a-b'' ''c'' \<and>
   (addressMap n (joinAddress ''a'' ''b-c'') = None \<and> servers n name = Some server \<longrightarrow>
      (let n1 = registerServer n name ''a'' ''b-c'' in
         getServerByAddress n1 ''a'' ''b-c'' = Inr server \<and>
         getServerByAddress n1 ''a-b'' ''c'' = Inr server \<and>
         Dail n1 ''a-b'' ''c'' = Dail n1 ''a'' ''b-c'' \<and>
         (case Dail n1 ''a-b'' ''c'' of
            (Inl err, n2) \<Rightarrow> False
          | (Inr c, n2) \<Rightarrow> connections n2 (client_name c) = Some (server_name server)) \<and>
         registerServer n1 name' ''a-b'' ''c'' = n1)) \<and>
   (addressMap n (joinAddress ''a'' ''b-c'') = None \<longrightarrow>
      addressMap (registerServer (registerServer n name ''a-b'' ''c'') name' ''a'' ''b-c'')
         (joinAddress ''a'' ''b-c'') = Some name)"
  by (auto simp add: joinAddress_def registerServer_def getServerByAddress_def Dail_def
      createClient_def newClient_def Let_def)

theorem C10_key_collision_witness:
  "addressMap net1 (joinAddress ''a'' ''b-c'') = None \<and>
   servers net1 ''server-0'' = Some (newServer ''server-0'') \<and>
   getServerByAddress (registerServer net1 ''server-0'' ''a'' ''b-c'') ''a-b'' ''c''
     = Inr (newServer ''server-0'') \<and>
   fst (Dail (registerServer net1 ''server-0'' ''a'' ''b-c'') ''a-b'' ''c'')
     = Inr (newClient ''client-1'') \<and>
   connections (snd (Dail (registerServer net1 ''server-0'' ''a'' ''b-c'') ''a-b'' ''c''))
     ''client-1'' = Some ''server-0'' \<and>
   registerServer (registerServer net1 ''server-0'' ''a'' ''b-c'') ''server-1'' ''a-b'' ''c''
     = registerServer net1 ''server-0'' ''a'' ''b-c''"
  using C10_key_collision [of net1 "''server-0''" "newServer ''server-0''" "''server-1''"]
  by (simp add: net1_eq joinAddress_def registerServer_def getServerByAddress_def Dail_def
      createClient_def generateName_def decimal_1 newServer_def Let_def)

subsection \<open>Parsing the service and method of a call\<close>

lemma Split_not_Nil: "Split s c \<noteq> []"
  by (induction s) (auto split: list.splits)

lemma length_Split: "length (Split s c) = Suc (count_list s c)"
  by (induction s) (auto split: list.splits simp add: Split_not_Nil)

lemma Split_no_sep: "c \<notin> set s \<Longrightarrow> Split s c = [s]"
  by (induction s) auto

lemma Split_at_first: "c \<notin> set a \<Longrightarrow> Split (a @ c # b) c = a # Split b c"
  by (induction a) auto

lemma count_one_decompose:
  "count_list s c = 1 \<Longrightarrow> \<exists>a b. s = a @ c # b \<and> c \<notin> set a \<and> c \<notin> set b"
proof (induction s)
  case Nil
  then show ?case by simp
next
  case (Cons x xs)
  show ?case
  proof (cases "x = c")
    case True
    with Cons.prems have "count_list xs c = 0" by simp
    then have "c \<notin> set xs" by (simp add: count_list_0_iff)
    with True have "x # xs = [] @ c # xs \<and> c \<notin> set [] \<and> c \<notin> set xs" by simp
    then show ?thesis by blast
  next
    case False
    with Cons.prems have "count_list xs c = 1" by simp
    from Cons.IH [OF this] obtain a b
      where "xs = a @ c # b" and "c \<notin> set a" and "c \<notin> set b" by blast
    with False have "x # xs = (x # a) @ c # b \<and> c \<notin> set (x # a) \<and> c \<notin> set b" by simp
    then show ?thesis by blast
  qed
qed

lemma parseServiceMethod_one_dot:
  "CHR ''.'' \<notin> set a \<Longrightarrow> CHR ''.'' \<notin> set b \<Longrightarrow>
     parseServiceMethod (a @ ''.'' @ b) = Inr (a, b)"
  by (simp add: parseServiceMethod_def Split_at_first Split_no_sep)

lemma parseServiceMethod_not_one_dot:
  "count_list s (CHR ''.'') \<noteq> 1 \<Longrightarrow> parseServiceMethod s = Inl (InvalidServiceMethod s)"
  by (simp add: parseServiceMethod_def length_Split)

text \<open>No path below \<open>Network.call\<close> builds the format error.\<close>

lemma service_dispatch_not_invalid:
  "fst (service_dispatch s method args reply e) \<noteq> Return (Some (InvalidServiceMethod x))"
  by (auto simp add: service_dispatch_def getMethod_def Call_def split: option.splits)

lemma Server_dispatch_not_invalid:
  "fst (Server_dispatch server service method args reply e)
     \<noteq> Return (Some (InvalidServiceMethod x))"
  by (simp add: Server_dispatch_def service_dispatch_not_invalid split: sum.splits)

lemma deliver_not_invalid:
  "fst (deliver server rel lr service method args reply e)
     \<noteq> Return (Some (InvalidServiceMethod x))"
proof (cases "Server_dispatch server service method args reply e")
  case (Pair out e1)
  with Server_dispatch_not_invalid [of server service "method" args reply e x]
  have "out \<noteq> Return (Some (InvalidServiceMethod x))" by simp
  with Pair show ?thesis
    by (cases out) (auto simp add: deliver_def Let_def timeoutErr_def split: prod.splits)
qed

lemma Network_dispatch_not_invalid:
  "fst (Network_dispatch n sv c service method args reply e)
     \<noteq> Return (Some (InvalidServiceMethod x))"
  by (simp add: Network_dispatch_def Let_def networkCondition_def deliver_not_invalid
      timeoutErr_def split: prod.splits)

text \<open>
  C9. The claim: the call fails with a format error exactly when the split on the dot
  does not yield exactly two non-empty components. The code counts the components
  and never looks whether one is empty: \<open>"Arith."\<close> splits into \<open>"Arith"\<close> and \<open>""\<close>, and
  the call goes through with the empty method name (on the test network the server
  has no service \<open>Arith\<close> and the call returns \<open>nil\<close>).
\<close>

theorem C9_empty_component_accepted:
  "Split ''Arith.'' (CHR ''.'') = [''Arith'', []] \<and>
   parseServiceMethod ''Arith.'' = Inr (''Arith'', []) \<and>
   Client_Call (newClient ''client-0'') net1 ''Arith.'' 2 3 env0 = (Return None, env0)"
  by (simp add: parseServiceMethod_def Client_Call_def newClient_def Network_call_def net1_eq
      Network_dispatch_def networkCondition_def getServer_def deliver_def Server_dispatch_def
      getService_def newServer_def)

text \<open>
  C9, as the code has it. The call fails with the format error exactly when the string
  does not hold exactly one dot, and then nothing else happens. A string with exactly
  one dot is \<open>service\<close>, the dot, \<open>method\<close> with no dot in either part (either may be
  empty), and that pair goes to the rest of \<open>Network.call\<close>: the look-up of the
  client's connection, then \<open>Network.dispatch\<close>.
\<close>

theorem C9_format_error_iff_not_one_dot:
  "((fst (Network_call n clientName s args reply e) = Return (Some (InvalidServiceMethod s)))
      = (count_list s (CHR ''.'') \<noteq> 1)) \<and>
   (count_list s (CHR ''.'') \<noteq> 1 \<longrightarrow>
      Network_call n clientName s args reply e = (Return (Some (InvalidServiceMethod s)), e)) \<and>
   (count_list s (CHR ''.'') = 1 \<longrightarrow>
      (\<exists>service method.
         s = service @ ''.'' @ method \<and>
         CHR ''.'' \<notin> set service \<and> CHR ''.'' \<notin> set method \<and>
         parseServiceMethod s = Inr (service, method) \<and>
         Network_call n clientName s args reply e
           = (case connections n clientName of
                None \<Rightarrow> (Return (Some ClientNotConnected), e)
              | Some serverName \<Rightarrow>
                  Network_dispatch n serverName clientName service method args reply e)))"
proof -
  have bad: "Network_call n clientName s args reply e
               = (Return (Some (InvalidServiceMethod s)), e)"
    if "count_list s (CHR ''.'') \<noteq> 1"
    using that by (simp add: Network_call_def parseServiceMethod_not_one_dot)
  have good: "\<exists>service method.
         s = service @ ''.'' @ method \<and>
         CHR ''.'' \<notin> set service \<and> CHR ''.'' \<notin> set method \<and>
         parseServiceMethod s = Inr (service, method) \<and>
         Network_call n clientName s args reply e
           = (case connections n clientName of
                None \<Rightarrow> (Return (Some ClientNotConnected), e)
              | Some serverName \<Rightarrow>
                  Network_dispatch n serverName clientName service method args reply e)"
    if "count_list s (CHR ''.'') = 1"
  proof -
    from count_one_decompose [OF that] obtain a b
      where s: "s = a @ CHR ''.'' # b" and a: "CHR ''.'' \<notin> set a" and b: "CHR ''.'' \<notin> set b"
      by blast
    from a b have p: "parseServiceMethod (a @ ''.'' @ b) = Inr (a, b)"
      by (rule parseServiceMethod_one_dot)
    from s have s': "s = a @ ''.'' @ b" by simp
    have "Network_call n clientName s args reply e
           = (case connections n clientName of
                None \<Rightarrow> (Return (Some ClientNotConnected), e)
              | Some serverName \<Rightarrow>
                  Network_dispatch n serverName clientName a b args reply e)"
      unfolding s' by (simp only: Network_call_def p sum.case prod.case)
    with s' a b p show ?thesis by blast
  qed
  have iff: "(fst (Network_call n clientName s args reply e)
                = Return (Some (InvalidServiceMethod s)))
             = (count_list s (CHR ''.'') \<noteq> 1)"
  proof (cases "count_list s (CHR ''.'') = 1")
    case True
    from good [OF True] obtain a b where
      "Network_call n clientName s args reply e
           = (case connections n clientName of
                None \<Rightarrow> (Return (Some ClientNotConnected), e)
              | Some serverName \<Rightarrow>
                  Network_dispatch n serverName clientName a b args reply e)"
      by blast
    then have "fst (Network_call n clientName s args reply e)
                 \<noteq> Return (Some (InvalidServiceMethod s))"
      by (simp add: Network_dispatch_not_invalid split: option.splits)
    with True show ?thesis by simp
  next
    case False
    with bad show ?thesis by simp
  qed
  from iff bad good show ?thesis by blast
qed

theorem C9_format_error_iff_not_one_dot_witness:
  "count_list ''ArithAdd'' (CHR ''.'') \<noteq> 1 \<and>
   Network_call net2 ''client-0'' ''ArithAdd'' 2 3 env0
     = (Return (Some (InvalidServiceMethod ''ArithAdd'')), env0) \<and>
   count_list ''Arith.Add.x'' (CHR ''.'') \<noteq> 1 \<and>
   Network_call net2 ''client-0'' ''Arith.Add.x'' 2 3 env0
     = (Return (Some (InvalidServiceMethod ''Arith.Add.x'')), env0) \<and>
   count_list ''Arith.Add'' (CHR ''.'') = 1 \<and>
   Network_call net2 ''client-0'' ''Arith.Add'' 2 3 env0
     = Network_dispatch net2 ''server-0'' ''client-0'' ''Arith'' ''Add'' 2 3 env0"
  using C9_format_error_iff_not_one_dot [of net2 "''client-0''" "''ArithAdd''" 2 3 env0]
        C9_format_error_iff_not_one_dot [of net2 "''client-0''" "''Arith.Add.x''" 2 3 env0]
        C9_format_error_iff_not_one_dot [of net2 "''client-0''" "''Arith.Add''" 2 3 env0]
  by (simp add: Network_call_def parseServiceMethod_def net2_eq)

subsection \<open>The fault-injection pipeline\<close>

lemma msgLost_eq: "msgLost e = (rng e 0 mod 1000 < 100, e\<lparr>rng := (\<lambda>i. rng e (Suc i))\<rparr>)"
  by (simp add: msgLost_def randInt_def)

lemma Call_rng: "rng (snd (Call m vs e)) = rng e"
  by (simp add: Call_def split: option.splits)

lemma service_dispatch_rng: "rng (snd (service_dispatch s method args reply e)) = rng e"
  by (auto simp add: service_dispatch_def Call_def split: sum.splits option.splits)

lemma Server_dispatch_rng:
  "rng (snd (Server_dispatch server service method args reply e)) = rng e"
  by (simp add: Server_dispatch_def service_dispatch_rng split: sum.splits)

lemma Network_dispatch_gate:
  assumes "enabled n c \<noteq> Some True \<or> servers n sv = None"
  shows "Network_dispatch n sv c service method args reply e =
           (Return (Some timeoutErr),
            e\<lparr>rng := (\<lambda>i. rng e (Suc i)),
              trace := trace e @ [Slept (rng e 0 mod (if longDelay n then 7000 else 100))]\<rparr>)"
  using assms
  by (auto simp add: Network_dispatch_def Let_def networkCondition_def getServer_def randInt_def
      sleep_def longTimeout_def shortTimeout_def split: option.splits)

lemma Network_dispatch_reliable:
  assumes "enabled n c = Some True" and "servers n sv = Some server" and "reliable n"
  shows "Network_dispatch n sv c service method args reply e =
           deliver server True (longReorder n) service method args reply e"
  using assms
  by (simp add: Network_dispatch_def Let_def networkCondition_def getServer_def)

lemma deliver_reliable:
  "deliver server True False service method args reply e
     = Server_dispatch server service method args reply e"
  by (auto simp add: deliver_def split: prod.splits outcome.splits)

lemma deliver_reliable_outcome:
  "fst (deliver server True lr service method args reply e)
     = fst (Server_dispatch server service method args reply e) \<and>
   world (snd (deliver server True lr service method args reply e))
     = world (snd (Server_dispatch server service method args reply e))"
  by (auto simp add: deliver_def Let_def responseDelay_def randIntn_def sleep_def
      split: prod.splits outcome.splits)

lemma enable_after_disable:
  "clients n c \<noteq> None \<Longrightarrow>
     enabled (DisableClient n c) c = Some False \<and>
     enabled (EnableClient (DisableClient n c) c) c = Some True \<and>
     servers (EnableClient (DisableClient n c) c) = servers n \<and>
     reliable (EnableClient (DisableClient n c) c) = reliable n \<and>
     longReorder (EnableClient (DisableClient n c) c) = longReorder n"
  by (auto simp add: EnableClient_def DisableClient_def setClientEnable_def)

lemma enable_disable_restores:
  "clients n c \<noteq> None \<and> enabled n c = Some True \<Longrightarrow>
     EnableClient (DisableClient n c) c = n"
proof -
  assume h: "clients n c \<noteq> None \<and> enabled n c = Some True"
  then have "(enabled n)(c \<mapsto> True) = enabled n"
    by (simp add: fun_upd_idem)
  with h show ?thesis
    by (auto simp add: EnableClient_def DisableClient_def setClientEnable_def)
qed

text \<open>
  C2. A call whose client is not enabled (its entry in \<open>enabled\<close> is \<open>false\<close> or
  missing) or whose server name is not in the directory: \<open>Network.dispatch\<close> takes one
  value \<open>r\<close> of the random source, sleeps \<open>r mod 100\<close> milliseconds when \<open>longDelay\<close> is
  false and \<open>r mod 7000\<close> when it is true, and returns the timeout error. The effects are
  the draw and the sleep and nothing else: the state the methods work on is untouched
  and the log gets no invocation. Disabling an existing client puts it in that case;
  enabling it again takes it out (and gives back the very network there was before,
  when the client was enabled then): on a reliable network with the server in the
  directory the call then returns what \<open>Server.dispatch\<close> returns and has its effect
  on the state (and is exactly \<open>Server.dispatch\<close> when \<open>longReorder\<close> is off).
\<close>

theorem C2_disabled_or_missing_server_times_out:
  "(enabled n c \<noteq> Some True \<or> servers n sv = None \<longrightarrow>
      Network_dispatch n sv c service meth args reply e
        = (Return (Some timeoutErr),
           e\<lparr>rng := (\<lambda>i. rng e (Suc i)),
             trace := trace e @ [Slept (rng e 0 mod (if longDelay n then 7000 else 100))]\<rparr>) \<and>
      rng e 0 mod (if longDelay n then 7000 else 100) < (if longDelay n then 7000 else 100) \<and>
      world (snd (Network_dispatch n sv c service meth args reply e)) = world e) \<and>
   (clients n c \<noteq> None \<longrightarrow>
      enabled (DisableClient n c) c = Some False \<and>
      enabled (EnableClient (DisableClient n c) c) c = Some True) \<and>
   (clients n c \<noteq> None \<and> enabled n c = Some True \<longrightarrow>
      EnableClient (DisableClient n c) c = n) \<and>
   (clients n c \<noteq> None \<and> servers n sv = Some server \<and> reliable n \<longrightarrow>
      fst (Network_dispatch (EnableClient (DisableClient n c) c) sv c service meth args reply e)
        = fst (Server_dispatch server service meth args reply e) \<and>
      world (snd (Network_dispatch (EnableClient (DisableClient n c) c) sv c
                    service meth args reply e))
        = world (snd (Server_dispatch server service meth args reply e)) \<and>
      (\<not> longReorder n \<longrightarrow>
         Network_dispatch (EnableClient (DisableClient n c) c) sv c service meth args reply e
           = Server_dispatch server service meth args reply e))"
proof (intro conjI impI)
  assume gate: "enabled n c \<noteq> Some True \<or> servers n sv = None"
  from Network_dispatch_gate [OF gate]
  show "Network_dispatch n sv c service meth args reply e
        = (Return (Some timeoutErr),
           e\<lparr>rng := (\<lambda>i. rng e (Suc i)),
             trace := trace e @ [Slept (rng e 0 mod (if longDelay n then 7000 else 100))]\<rparr>)" .
  from Network_dispatch_gate [OF gate]
  show "world (snd (Network_dispatch n sv c service meth args reply e)) = world e"
    by simp
  show "rng e 0 mod (if longDelay n then 7000 else 100) < (if longDelay n then 7000 else 100)"
    by simp
next
  assume "clients n c \<noteq> None"
  then show "enabled (DisableClient n c) c = Some False"
    and "enabled (EnableClient (DisableClient n c) c) c = Some True"
    by (simp_all add: enable_after_disable)
next
  assume "clients n c \<noteq> None \<and> enabled n c = Some True"
  then show "EnableClient (DisableClient n c) c = n"
    by (rule enable_disable_restores)
next
  assume h: "clients n c \<noteq> None \<and> servers n sv = Some server \<and> reliable n"
  let ?n = "EnableClient (DisableClient n c) c"
  from h have "enabled ?n c = Some True" and "servers ?n sv = Some server" and "reliable ?n"
    and lr: "longReorder ?n = longReorder n"
    by (simp_all add: enable_after_disable)
  then have d: "Network_dispatch ?n sv c service meth args reply e
                  = deliver server True (longReorder n) service meth args reply e"
    by (simp add: Network_dispatch_reliable)
  from d show "fst (Network_dispatch ?n sv c service meth args reply e)
                 = fst (Server_dispatch server service meth args reply e)"
    by (simp add: deliver_reliable_outcome)
  from d show "world (snd (Network_dispatch ?n sv c service meth args reply e))
                 = world (snd (Server_dispatch server service meth args reply e))"
    by (simp add: deliver_reliable_outcome)
  assume "\<not> longReorder n"
  with d show "Network_dispatch ?n sv c service meth args reply e
                 = Server_dispatch server service meth args reply e"
    by (simp add: deliver_reliable)
qed

theorem C2_disabled_or_missing_server_times_out_witness:
  "clients net2 ''client-0'' \<noteq> None \<and> servers net2 ''server-0'' = Some server1 \<and>
   reliable net2 \<and> \<not> longReorder net2 \<and>
   enabled (DisableClient net2 ''client-0'') ''client-0'' \<noteq> Some True \<and>
   Network_dispatch (DisableClient net2 ''client-0'') ''server-0'' ''client-0''
       ''Arith'' ''Add'' 2 3 env1
     = (Return (Some timeoutErr),
        \<lparr>world = 0, rng = (\<lambda>i. if i = 1 then 50 else 12345), trace = [Slept 45]\<rparr>) \<and>
   servers (RemoveServer net2 server1) ''server-0'' = None \<and>
   Network_dispatch (RemoveServer net2 server1) ''server-0'' ''client-0''
       ''Arith'' ''Add'' 2 3 env1
     = (Return (Some timeoutErr),
        \<lparr>world = 0, rng = (\<lambda>i. if i = 1 then 50 else 12345), trace = [Slept 45]\<rparr>) \<and>
   Network_dispatch (EnableClient (DisableClient net2 ''client-0'') ''client-0'')
       ''server-0'' ''client-0'' ''Arith'' ''Add'' 2 3 env1
     = (Return None,
        \<lparr>world = 2, rng = (\<lambda>i. if i = 2 then 50 else 12345),
         trace = [Invoked ''Add'' [7, 2, 3]]\<rparr>)"
proof -
  have c: "clients net2 ''client-0'' \<noteq> None" and s: "servers net2 ''server-0'' = Some server1"
    and r: "reliable net2" and l: "\<not> longReorder net2" and ld: "\<not> longDelay net2"
    by (simp_all add: net2_eq)
  have dis: "enabled (DisableClient net2 ''client-0'') ''client-0'' \<noteq> Some True"
    and ldd: "\<not> longDelay (DisableClient net2 ''client-0'')"
    by (simp_all add: net2_eq DisableClient_def setClientEnable_def)
  have rem: "servers (RemoveServer net2 server1) ''server-0'' = None"
    and ldr: "\<not> longDelay (RemoveServer net2 server1)"
    by (simp_all add: net2_eq RemoveServer_def server1_eq)
  have rng1: "(\<lambda>i. rng env1 (Suc i)) = (\<lambda>i. if i = 1 then 50 else 12345)"
    by (auto simp add: env1_def)
  from C2_disabled_or_missing_server_times_out
         [where n = "DisableClient net2 ''client-0''" and c = "''client-0''"
            and sv = "''server-0''" and service = "''Arith''" and meth = "''Add''"
            and args = 2 and reply = 3 and e = env1] dis ldd
  have a: "Network_dispatch (DisableClient net2 ''client-0'') ''server-0'' ''client-0''
             ''Arith'' ''Add'' 2 3 env1
           = (Return (Some timeoutErr),
              \<lparr>world = 0, rng = (\<lambda>i. if i = 1 then 50 else 12345), trace = [Slept 45]\<rparr>)"
    by (simp add: rng1) (simp add: env1_def)
  from C2_disabled_or_missing_server_times_out
         [where n = "RemoveServer net2 server1" and c = "''client-0''"
            and sv = "''server-0''" and service = "''Arith''" and meth = "''Add''"
            and args = 2 and reply = 3 and e = env1] rem ldr
  have b: "Network_dispatch (RemoveServer net2 server1) ''server-0'' ''client-0''
             ''Arith'' ''Add'' 2 3 env1
           = (Return (Some timeoutErr),
              \<lparr>world = 0, rng = (\<lambda>i. if i = 1 then 50 else 12345), trace = [Slept 45]\<rparr>)"
    by (simp add: rng1) (simp add: env1_def)
  from C2_disabled_or_missing_server_times_out
         [where n = net2 and c = "''client-0''" and sv = "''server-0''" and server = server1
            and service = "''Arith''" and meth = "''Add''"
            and args = 2 and reply = 3 and e = env1] c s r l
  have d: "Network_dispatch (EnableClient (DisableClient net2 ''client-0'') ''client-0'')
             ''server-0'' ''client-0'' ''Arith'' ''Add'' 2 3 env1
           = (Return None,
              \<lparr>world = 2, rng = (\<lambda>i. if i = 2 then 50 else 12345),
               trace = [Invoked ''Add'' [7, 2, 3]]\<rparr>)"
    by (simp add: Server_dispatch_server1_Add) (simp add: env1_def)
  from c s r l dis a rem b d show ?thesis by blast
qed

subsection \<open>Unreliable mode\<close>

lemma mod_in_block:
  fixes r k :: nat
  assumes "1000 * k \<le> r" and "r < 1000 * k + 1000"
  shows "r mod 1000 = r - 1000 * k"
proof -
  from assms(1) obtain j where j: "r = 1000 * k + j" by (auto simp add: le_iff_add)
  with assms(2) have "j < 1000" by simp
  with j show ?thesis by simp
qed

lemma lost_block:
  "{r::nat. r < 1000 * Suc k \<and> r mod 1000 < 100}
     = {r. r < 1000 * k \<and> r mod 1000 < 100} \<union> {1000 * k ..< 1000 * k + 100}"
proof (rule set_eqI)
  fix r :: nat
  show "(r \<in> {r. r < 1000 * Suc k \<and> r mod 1000 < 100})
          = (r \<in> {r. r < 1000 * k \<and> r mod 1000 < 100} \<union> {1000 * k ..< 1000 * k + 100})"
  proof (cases "r < 1000 * k")
    case True
    then show ?thesis by simp
  next
    case False
    show ?thesis
    proof (cases "r < 1000 * k + 1000")
      case True
      with False have "r mod 1000 = r - 1000 * k" by (simp add: mod_in_block)
      with False True show ?thesis by auto
    next
      case False
      then show ?thesis by simp
    qed
  qed
qed

lemma lost_count: "card {r::nat. r < 1000 * k \<and> r mod 1000 < 100} = 100 * k"
proof (induction k)
  case 0
  then show ?case by simp
next
  case (Suc k)
  have fin: "finite {r::nat. r < 1000 * k \<and> r mod 1000 < 100}" by simp
  have disj: "{r::nat. r < 1000 * k \<and> r mod 1000 < 100} \<inter> {1000 * k ..< 1000 * k + 100} = {}"
  proof (rule equals0I)
    fix y
    assume "y \<in> {r::nat. r < 1000 * k \<and> r mod 1000 < 100} \<inter> {1000 * k ..< 1000 * k + 100}"
    then have "y < 1000 * k" and "1000 * k \<le> y" by simp_all
    then show False by linarith
  qed
  have "card ({r::nat. r < 1000 * k \<and> r mod 1000 < 100} \<union> {1000 * k ..< 1000 * k + 100})
          = card {r::nat. r < 1000 * k \<and> r mod 1000 < 100} + card {1000 * k ..< 1000 * k + 100}"
    using fin disj by (simp add: card_Un_disjoint)
  with Suc.IH show ?case by (simp only: lost_block) simp
qed

lemma msgLost_count:
  "card {r. r < 1000 * k \<and> fst (msgLost (e\<lparr>rng := (\<lambda>i. r)\<rparr>))} * 10 = 1000 * k"
  by (simp add: msgLost_eq lost_count)

lemma Network_dispatch_request_lost:
  assumes "enabled n c = Some True" and "servers n sv = Some server" and "\<not> reliable n"
    and "rng e 0 mod 1000 < 100"
  shows "Network_dispatch n sv c service method args reply e
           = (Return (Some timeoutErr), e\<lparr>rng := (\<lambda>i. rng e (i + 1))\<rparr>)"
  using assms
  by (simp add: Network_dispatch_def Let_def networkCondition_def getServer_def msgLost_eq)

lemma Network_dispatch_request_passes:
  assumes "enabled n c = Some True" and "servers n sv = Some server" and "\<not> reliable n"
    and "\<not> rng e 0 mod 1000 < 100"
  shows "Network_dispatch n sv c service method args reply e
           = deliver server False (longReorder n) service method args reply
               (sleep (rng e 1 mod 27) (e\<lparr>rng := (\<lambda>i. rng e (i + 2))\<rparr>))"
  using assms
  by (simp add: Network_dispatch_def Let_def networkCondition_def getServer_def msgLost_eq
      randInt_def shortDelay_def)

lemma deliver_Panic:
  "Server_dispatch server service method args reply e = (Panic, e1) \<Longrightarrow>
     deliver server rel lr service method args reply e = (Panic, e1)"
  by (simp add: deliver_def)

lemma deliver_response_lost:
  assumes "Server_dispatch server service method args reply e = (Return err, e1)"
    and "rng e 0 mod 1000 < 100"
  shows "deliver server False lr service method args reply e
           = (Return (Some timeoutErr), e1\<lparr>rng := (\<lambda>i. rng e (i + 1))\<rparr>)"
proof -
  from assms(1) have "rng e1 = rng e"
    using Server_dispatch_rng [of server service "method" args reply e] by simp
  with assms show ?thesis by (simp add: deliver_def msgLost_eq)
qed

lemma deliver_response_passes:
  assumes "Server_dispatch server service method args reply e = (Return err, e1)"
    and "\<not> rng e 0 mod 1000 < 100"
  shows "fst (deliver server False lr service method args reply e) = Return err"
    and "world (snd (deliver server False lr service method args reply e)) = world e1"
    and "\<not> lr \<Longrightarrow> deliver server False lr service method args reply e
                  = (Return err, e1\<lparr>rng := (\<lambda>i. rng e (i + 1))\<rparr>)"
proof -
  from assms(1) have r: "rng e1 = rng e"
    using Server_dispatch_rng [of server service "method" args reply e] by simp
  from assms r show "fst (deliver server False lr service method args reply e) = Return err"
    by (simp add: deliver_def msgLost_eq Let_def split: prod.splits)
  from assms r show "world (snd (deliver server False lr service method args reply e)) = world e1"
    by (simp add: deliver_def msgLost_eq Let_def responseDelay_def randIntn_def sleep_def
        split: prod.splits)
  assume "\<not> lr"
  with assms r show "deliver server False lr service method args reply e
                  = (Return err, e1\<lparr>rng := (\<lambda>i. rng e (i + 1))\<rparr>)"
    by (simp add: deliver_def msgLost_eq)
qed

text \<open>
  C3. On an unreliable network, for an enabled client whose server is in the directory,
  \<open>Network.dispatch\<close> decides each leg by a value of its own of the random source, and
  a value \<open>r\<close> drops the leg when \<open>r mod 1000 < 100\<close>: that is 100 of the 1000 residues,
  so among the values below any multiple of 1000 exactly one in ten drops.
  \<^item> Request leg, first value: when it drops, the result is the timeout error and the
    only effect is the draw (no sleep, nothing invoked, the state untouched).
  \<^item> Otherwise the second value gives the short delay (below 27 ms) and the server is
    called. Response leg, third value: when it drops, the result is the timeout error
    and the effects of the server's call stay (the state is the one the method left).
    When it does not drop, the result is the server's.
\<close>

theorem C3_unreliable_drops_one_in_ten:
  "(enabled n c = Some True \<and> servers n sv = Some server \<and> \<not> reliable n \<longrightarrow>
     (let res = Network_dispatch n sv c service meth args reply e;
          e2 = sleep (rng e 1 mod 27) (e\<lparr>rng := (\<lambda>i. rng e (i + 2))\<rparr>);
          (out, e3) = Server_dispatch server service meth args reply e2
      in (rng e 0 mod 1000 < 100 \<longrightarrow>
            res = (Return (Some timeoutErr), e\<lparr>rng := (\<lambda>i. rng e (i + 1))\<rparr>)) \<and>
         (\<not> rng e 0 mod 1000 < 100 \<longrightarrow>
            (case out of
               Panic \<Rightarrow> res = (Panic, e3)
             | Return err \<Rightarrow>
                 (rng e 2 mod 1000 < 100 \<longrightarrow>
                    res = (Return (Some timeoutErr), e3\<lparr>rng := (\<lambda>i. rng e (i + 3))\<rparr>)) \<and>
                 (\<not> rng e 2 mod 1000 < 100 \<longrightarrow>
                    fst res = Return err \<and> world (snd res) = world e3 \<and>
                    (\<not> longReorder n \<longrightarrow>
                       res = (Return err, e3\<lparr>rng := (\<lambda>i. rng e (i + 3))\<rparr>))))))) \<and>
   (\<forall>r. fst (msgLost (e\<lparr>rng := (\<lambda>i. r)\<rparr>)) = (r mod 1000 < 100)) \<and>
   (\<forall>k. card {r. r < 1000 * k \<and> fst (msgLost (e\<lparr>rng := (\<lambda>i. r)\<rparr>))} * 10 = 1000 * k)"
proof (intro conjI impI allI)
  fix r
  show "fst (msgLost (e\<lparr>rng := (\<lambda>i. r)\<rparr>)) = (r mod 1000 < 100)"
    by (simp add: msgLost_eq)
next
  fix k
  show "card {r. r < 1000 * k \<and> fst (msgLost (e\<lparr>rng := (\<lambda>i. r)\<rparr>))} * 10 = 1000 * k"
    by (rule msgLost_count)
next
  assume h: "enabled n c = Some True \<and> servers n sv = Some server \<and> \<not> reliable n"
  then have en: "enabled n c = Some True" and sv: "servers n sv = Some server"
    and unrel: "\<not> reliable n"
    by simp_all
  define e2 where "e2 = sleep (rng e 1 mod 27) (e\<lparr>rng := (\<lambda>i. rng e (i + 2))\<rparr>)"
  obtain out e3 where sd: "Server_dispatch server service meth args reply e2 = (out, e3)"
    by (cases "Server_dispatch server service meth args reply e2") blast
  have r2: "rng e2 0 = rng e 2" and r2': "\<And>i. rng e2 (i + 1) = rng e (i + 3)"
    by (simp_all add: e2_def sleep_def numeral_2_eq_2 numeral_3_eq_3)
  have lost: "Network_dispatch n sv c service meth args reply e
                = (Return (Some timeoutErr), e\<lparr>rng := (\<lambda>i. rng e (i + 1))\<rparr>)"
    if "rng e 0 mod 1000 < 100"
    using en sv unrel that by (rule Network_dispatch_request_lost)
  have pass: "(case out of
               Panic \<Rightarrow> Network_dispatch n sv c service meth args reply e = (Panic, e3)
             | Return err \<Rightarrow>
                 (rng e 2 mod 1000 < 100 \<longrightarrow>
                    Network_dispatch n sv c service meth args reply e
                      = (Return (Some timeoutErr), e3\<lparr>rng := (\<lambda>i. rng e (i + 3))\<rparr>)) \<and>
                 (\<not> rng e 2 mod 1000 < 100 \<longrightarrow>
                    fst (Network_dispatch n sv c service meth args reply e) = Return err \<and>
                    world (snd (Network_dispatch n sv c service meth args reply e)) = world e3 \<and>
                    (\<not> longReorder n \<longrightarrow>
                       Network_dispatch n sv c service meth args reply e
                         = (Return err, e3\<lparr>rng := (\<lambda>i. rng e (i + 3))\<rparr>))))"
    if np: "\<not> rng e 0 mod 1000 < 100"
  proof -
    have nd: "Network_dispatch n sv c service meth args reply e
                = deliver server False (longReorder n) service meth args reply e2"
      unfolding e2_def using en sv unrel np by (rule Network_dispatch_request_passes)
    show ?thesis
    proof (cases out)
      case Panic
      with sd have "deliver server False (longReorder n) service meth args reply e2
                      = (Panic, e3)"
        by (simp add: deliver_Panic)
      with nd Panic show ?thesis by simp
    next
      case (Return err)
      with sd have sd': "Server_dispatch server service meth args reply e2 = (Return err, e3)"
        by simp
      have a: "Network_dispatch n sv c service meth args reply e
                 = (Return (Some timeoutErr), e3\<lparr>rng := (\<lambda>i. rng e (i + 3))\<rparr>)"
        if "rng e 2 mod 1000 < 100"
        using deliver_response_lost [OF sd', of "longReorder n"] that nd r2 r2' by simp
      have b: "fst (Network_dispatch n sv c service meth args reply e) = Return err \<and>
               world (snd (Network_dispatch n sv c service meth args reply e)) = world e3 \<and>
               (\<not> longReorder n \<longrightarrow>
                  Network_dispatch n sv c service meth args reply e
                    = (Return err, e3\<lparr>rng := (\<lambda>i. rng e (i + 3))\<rparr>))"
        if "\<not> rng e 2 mod 1000 < 100"
        using deliver_response_passes [OF sd', of "longReorder n"] that nd r2 r2' by simp
      from a b Return show ?thesis by simp
    qed
  qed
  from lost pass sd show
    "(let res = Network_dispatch n sv c service meth args reply e;
          e2 = sleep (rng e 1 mod 27) (e\<lparr>rng := (\<lambda>i. rng e (i + 2))\<rparr>);
          (out, e3) = Server_dispatch server service meth args reply e2
      in (rng e 0 mod 1000 < 100 \<longrightarrow>
            res = (Return (Some timeoutErr), e\<lparr>rng := (\<lambda>i. rng e (i + 1))\<rparr>)) \<and>
         (\<not> rng e 0 mod 1000 < 100 \<longrightarrow>
            (case out of
               Panic \<Rightarrow> res = (Panic, e3)
             | Return err \<Rightarrow>
                 (rng e 2 mod 1000 < 100 \<longrightarrow>
                    res = (Return (Some timeoutErr), e3\<lparr>rng := (\<lambda>i. rng e (i + 3))\<rparr>)) \<and>
                 (\<not> rng e 2 mod 1000 < 100 \<longrightarrow>
                    fst res = Return err \<and> world (snd res) = world e3 \<and>
                    (\<not> longReorder n \<longrightarrow>
                       res = (Return err, e3\<lparr>rng := (\<lambda>i. rng e (i + 3))\<rparr>))))))"
    unfolding Let_def e2_def [symmetric] by simp
qed

theorem C3_unreliable_drops_one_in_ten_witness:
  "enabled (SetReliable net2 False) ''client-0'' = Some True \<and>
   servers (SetReliable net2 False) ''server-0'' = Some server1 \<and>
   \<not> reliable (SetReliable net2 False) \<and>
   Network_dispatch (SetReliable net2 False) ''server-0'' ''client-0'' ''Arith'' ''Add'' 2 3 env0
     = (Return (Some timeoutErr), env0) \<and>
   Network_dispatch (SetReliable net2 False) ''server-0'' ''client-0'' ''Arith'' ''Add'' 2 3 env1
     = (Return (Some timeoutErr),
        \<lparr>world = 2, rng = (\<lambda>i. 12345),
         trace = [Slept 6, Invoked ''Add'' [7, 2, 3]]\<rparr>)"
proof -
  have en: "enabled (SetReliable net2 False) ''client-0'' = Some True"
    and sv: "servers (SetReliable net2 False) ''server-0'' = Some server1"
    and unrel: "\<not> reliable (SetReliable net2 False)"
    by (simp_all add: net2_eq SetReliable_def)
  have lost0: "rng env0 0 mod 1000 < 100"
    and pass1: "\<not> rng env1 0 mod 1000 < 100"
    and lost1: "rng env1 2 mod 1000 < 100"
    and delay1: "rng env1 (Suc 0) mod 27 = 6"
    by (simp_all add: env0_def env1_def)
  have shift0: "env0\<lparr>rng := (\<lambda>i. rng env0 (Suc i))\<rparr> = env0"
    by (simp add: env0_def)
  have sd1: "Server_dispatch server1 ''Arith'' ''Add'' 2 3
               (sleep 6 (env1\<lparr>rng := (\<lambda>i. rng env1 (Suc (Suc i)))\<rparr>))
             = (Return None,
                \<lparr>world = 2, rng = (\<lambda>i. rng env1 (Suc (Suc i))),
                 trace = [Slept 6, Invoked ''Add'' [7, 2, 3]]\<rparr>)"
    by (simp add: Server_dispatch_server1_Add sleep_def) (simp add: env1_def)
  have shift1: "(\<lambda>i. rng env1 (i + 3)) = (\<lambda>i. 12345)"
    by (auto simp add: env1_def)
  from C3_unreliable_drops_one_in_ten
         [where n = "SetReliable net2 False" and c = "''client-0''" and sv = "''server-0''"
            and server = server1 and service = "''Arith''" and meth = "''Add''"
            and args = 2 and reply = 3 and e = env0] en sv unrel lost0
  have a: "Network_dispatch (SetReliable net2 False) ''server-0'' ''client-0''
             ''Arith'' ''Add'' 2 3 env0
           = (Return (Some timeoutErr), env0)"
    by (simp add: Let_def shift0 split: prod.splits)
  from C3_unreliable_drops_one_in_ten
         [where n = "SetReliable net2 False" and c = "''client-0''" and sv = "''server-0''"
            and server = server1 and service = "''Arith''" and meth = "''Add''"
            and args = 2 and reply = 3 and e = env1] en sv unrel pass1 lost1
  have b: "Network_dispatch (SetReliable net2 False) ''server-0'' ''client-0''
             ''Arith'' ''Add'' 2 3 env1
           = (Return (Some timeoutErr),
              \<lparr>world = 2, rng = (\<lambda>i. 12345),
               trace = [Slept 6, Invoked ''Add'' [7, 2, 3]]\<rparr>)"
    by (simp add: Let_def delay1 sd1 shift1)
  from en sv unrel a b show ?thesis by blast
qed

end
